theory Spec2Isabelle
  imports Complex_Main
begin

section \<open>JavaScript values as the dashboard receives them\<close>

text \<open>
  \<^verbatim>\<open>src/frontend/dashboard.js\<close> polls \<^verbatim>\<open>GET /latest\<close> and renders the parsed body. The body
  is whatever \<^verbatim>\<open>resp.json()\<close> yields, so the model works on arbitrary JSON values, not only
  on the shape a well-behaved server sends.

  A JavaScript number is an IEEE-754 double. The order on finite doubles is the order of the
  reals they denote, so a finite number carries the real its double denotes and comparisons
  are exact. \<^verbatim>\<open>JSON.parse\<close> can return an infinity (\<^verbatim>\<open>1e999\<close>) and \<^verbatim>\<open>Number(...)\<close> can
  return \<^verbatim>\<open>NaN\<close>, so both are values.
\<close>

datatype jsnum = NaN | PosInf | NegInf | Finite real

datatype jsval =
    JNull
  | JBool bool
  | JNum jsnum
  | JStr string
  | JArr "jsval list"
  | JObj "(string \<times> jsval) list"

text \<open>
  A property read yields a value or \<^verbatim>\<open>undefined\<close>; \<^verbatim>\<open>undefined\<close> is \<open>None\<close> of
  \<open>jsval option\<close>. It arises only from a missing property: JSON has no \<^verbatim>\<open>undefined\<close>.
\<close>

datatype exn = TypeError | FetchFailed | JsonSyntaxError

text \<open>
  What the engine and the browser compute and the script does not: the product of two finite
  doubles (it is rounded, and may overflow to an infinity), the decimal text of a finite
  number, the number a string spells (\<^verbatim>\<open>NaN\<close> when it spells none), and the text
  \<^verbatim>\<open>new Date(v).toLocaleString()\<close> gives for a primitive \<open>v\<close> other than \<^verbatim>\<open>undefined\<close>
  (it depends on locale and time zone).
\<close>

record platform =
  float_mul :: "real \<Rightarrow> real \<Rightarrow> jsnum"
  number_to_string :: "real \<Rightarrow> string"
  string_to_number :: "string \<Rightarrow> jsnum"
  to_locale_string :: "jsval \<Rightarrow> string"

subsection \<open>Property reads, truthiness, typeof\<close>

text \<open>
  \<^verbatim>\<open>v.k\<close> for the six names the script reads (\<^verbatim>\<open>probability\<close>, \<^verbatim>\<open>status\<close>, \<^verbatim>\<open>days_left\<close>,
  \<^verbatim>\<open>history\<close>, \<^verbatim>\<open>timestamp\<close>, \<^verbatim>\<open>resistance\<close>), none of which a built-in prototype defines:
  reading from \<^verbatim>\<open>null\<close> throws a \<^verbatim>\<open>TypeError\<close>, an object yields its own property, and
  every other value yields \<^verbatim>\<open>undefined\<close>. \<open>own_field\<close> is the read from a value already known
  not to be \<^verbatim>\<open>null\<close>.
\<close>

fun own_field :: "jsval \<Rightarrow> string \<Rightarrow> jsval option" where
  "own_field (JObj kvs) k = map_of kvs k"
| "own_field v k = None"

definition get_field :: "jsval \<Rightarrow> string \<Rightarrow> exn + jsval option" where
  "get_field v k = (if v = JNull then Inl TypeError else Inr (own_field v k))"

fun to_boolean :: "jsval option \<Rightarrow> bool" where
  "to_boolean None = False"
| "to_boolean (Some JNull) = False"
| "to_boolean (Some (JBool b)) = b"
| "to_boolean (Some (JNum NaN)) = False"
| "to_boolean (Some (JNum (Finite x))) = (x \<noteq> 0)"
| "to_boolean (Some (JNum n)) = True"
| "to_boolean (Some (JStr s)) = (s \<noteq> [])"
| "to_boolean (Some v) = True"

datatype jstype = TObject | TBoolean | TNumber | TString

fun js_typeof :: "jsval \<Rightarrow> jstype" where
  "js_typeof JNull = TObject"
| "js_typeof (JBool b) = TBoolean"
| "js_typeof (JNum n) = TNumber"
| "js_typeof (JStr s) = TString"
| "js_typeof (JArr xs) = TObject"
| "js_typeof (JObj kvs) = TObject"

subsection \<open>Conversions\<close>

definition num_string :: "platform \<Rightarrow> jsnum \<Rightarrow> string" where
  "num_string env n =
     (case n of NaN \<Rightarrow> ''NaN'' | PosInf \<Rightarrow> ''Infinity'' | NegInf \<Rightarrow> ''-Infinity''
      | Finite x \<Rightarrow> number_to_string env x)"

text \<open>
  \<^verbatim>\<open>String(v)\<close>, a template literal \<^verbatim>\<open>${v}\<close> and the \<^verbatim>\<open>innerText\<close> setter all apply
  ToString. On an array it is \<^verbatim>\<open>join(',')\<close>, where \<^verbatim>\<open>null\<close> elements give the empty string.
  On an object it is \<^verbatim>\<open>Object.prototype.toString\<close>, unless the object has an own property
  \<^verbatim>\<open>toString\<close>: a JSON value is never callable, \<^verbatim>\<open>valueOf\<close> returns no primitive, and the
  conversion throws a \<^verbatim>\<open>TypeError\<close>.
\<close>

fun to_string :: "platform \<Rightarrow> jsval \<Rightarrow> exn + string"
  and join_elems :: "platform \<Rightarrow> jsval list \<Rightarrow> exn + string"
  and elem_string :: "platform \<Rightarrow> jsval \<Rightarrow> exn + string" where
  "to_string env JNull = Inr ''null''"
| "to_string env (JBool b) = Inr (if b then ''true'' else ''false'')"
| "to_string env (JNum n) = Inr (num_string env n)"
| "to_string env (JStr s) = Inr s"
| "to_string env (JArr xs) = join_elems env xs"
| "to_string env (JObj kvs) =
     (if ''toString'' \<in> set (map fst kvs) then Inl TypeError else Inr ''[object Object]'')"
| "join_elems env [] = Inr []"
| "join_elems env [x] = elem_string env x"
| "join_elems env (x # y # ys) =
     (case elem_string env x of
        Inl e \<Rightarrow> Inl e
      | Inr a \<Rightarrow> (case join_elems env (y # ys) of
                    Inl e \<Rightarrow> Inl e
                  | Inr b \<Rightarrow> Inr (a @ '','' @ b)))"
| "elem_string env x = (if x = JNull then Inr [] else to_string env x)"

text \<open>
  \<^verbatim>\<open>Number(v)\<close>. An array or object is first turned into the string above, which is then
  read as a number.
\<close>

fun to_number :: "platform \<Rightarrow> jsval \<Rightarrow> exn + jsnum" where
  "to_number env JNull = Inr (Finite 0)"
| "to_number env (JBool b) = Inr (Finite (if b then 1 else 0))"
| "to_number env (JNum n) = Inr n"
| "to_number env (JStr s) = Inr (string_to_number env s)"
| "to_number env v =
     (case to_string env v of Inl e \<Rightarrow> Inl e | Inr s \<Rightarrow> Inr (string_to_number env s))"

text \<open>\<^verbatim>\<open>Math.round\<close>: the nearest integer, a tie going up.\<close>

fun math_round :: "jsnum \<Rightarrow> jsnum" where
  "math_round (Finite x) = Finite (of_int \<lfloor>x + 1 / 2\<rfloor>)"
| "math_round n = n"

text \<open>\<^verbatim>\<open>Math.max(0, n)\<close> and \<^verbatim>\<open>Math.min(100, n)\<close>.\<close>

fun math_max0 :: "jsnum \<Rightarrow> jsnum" where
  "math_max0 NaN = NaN"
| "math_max0 PosInf = PosInf"
| "math_max0 NegInf = Finite 0"
| "math_max0 (Finite x) = Finite (max 0 x)"

fun math_min100 :: "jsnum \<Rightarrow> jsnum" where
  "math_min100 NaN = NaN"
| "math_min100 PosInf = Finite 100"
| "math_min100 NegInf = NegInf"
| "math_min100 (Finite x) = Finite (min 100 x)"

text \<open>\<^verbatim>\<open>a * c\<close> for a finite constant \<open>c > 0\<close>.\<close>

fun times_const :: "platform \<Rightarrow> jsnum \<Rightarrow> real \<Rightarrow> jsnum" where
  "times_const env (Finite x) c = float_mul env x c"
| "times_const env n c = n"

text \<open>\<^verbatim>\<open>n >= c\<close> for a finite constant \<open>c\<close>.\<close>

fun num_ge :: "jsnum \<Rightarrow> real \<Rightarrow> bool" where
  "num_ge (Finite x) c = (c \<le> x)"
| "num_ge PosInf c = True"
| "num_ge n c = False"

subsection \<open>The decimal literals of the script\<close>

text \<open>
  A decimal literal denotes the double nearest to it, which is the number the script compares
  and multiplies with, and also the number \<^verbatim>\<open>JSON.parse\<close> returns for the same digits in a
  response. Of the literals of \<open>updateUI\<close> only \<^verbatim>\<open>0.75\<close> (and the integers) are doubles
  themselves: \<^verbatim>\<open>0.95\<close> and \<^verbatim>\<open>0.60\<close> denote doubles just below the fraction, \<^verbatim>\<open>0.40\<close> and
  \<^verbatim>\<open>3.6\<close> doubles just above. Each is written as its 53-bit significand over a power of two.
\<close>

definition lit_0_95 :: real where
  "lit_0_95 = 8556839292003942 / 2 ^ 53"

definition lit_0_75 :: real where
  "lit_0_75 = 6755399441055744 / 2 ^ 53"

definition lit_0_60 :: real where
  "lit_0_60 = 5404319552844595 / 2 ^ 53"

definition lit_0_40 :: real where
  "lit_0_40 = 7205759403792794 / 2 ^ 54"

definition lit_3_6 :: real where
  "lit_3_6 = 8106479329266893 / 2 ^ 51"

section \<open>The page\<close>

text \<open>
  The script's state: the elements it looks up by id, with the property it writes on each, and
  its two globals. An element the document lacks is \<open>None\<close>: every write is guarded by
  \<^verbatim>\<open>if (el)\<close>. The text fields are the last string assigned to \<^verbatim>\<open>innerText\<close>,
  \<open>probCircle\<close> is \<^verbatim>\<open>style.background\<close>, \<open>sensorReadingsContainer\<close> is \<^verbatim>\<open>style.display\<close>.
  The children of \<^verbatim>\<open>#readingsList\<close> are kept as the strings spliced into their markup: a
  placeholder has a \<^verbatim>\<open>reading-time\<close> only, a reading has a \<^verbatim>\<open>reading-time\<close> and a
  \<^verbatim>\<open>reading-value\<close>. \<open>console\<close> is what \<^verbatim>\<open>console.error\<close> has printed.
\<close>

datatype reading_item = TimeOnly string | TimeValue string string

datatype log_entry =
    InvalidData jsval
  | FetchErrorStatus nat
  | FetchException exn

record page =
  probText :: "string option"
  statusText :: "string option"
  daysText :: "string option"
  probCircle :: "string option"
  readingsList :: "reading_item list option"
  sensorReadingsContainer :: "string option"
  readingsVisible :: bool
  lastData :: jsval
  console :: "log_entry list"

text \<open>\<^verbatim>\<open>if (el) el.prop = v\<close>\<close>

definition assign :: "'a \<Rightarrow> 'a option \<Rightarrow> 'a option" where
  "assign v el = (case el of None \<Rightarrow> None | Some old \<Rightarrow> Some v)"

definition console_error :: "log_entry \<Rightarrow> page \<Rightarrow> page" where
  "console_error e s = s\<lparr>console := console s @ [e]\<rparr>"

definition showWaiting :: "page \<Rightarrow> page" where
  "showWaiting s =
     s\<lparr>probText := assign ''--%'' (probText s),
       statusText := assign ''Waiting for sensor...'' (statusText s),
       daysText := assign ''-- days'' (daysText s),
       readingsList := assign [TimeOnly ''No readings yet''] (readingsList s)\<rparr>"

definition showError :: "string \<Rightarrow> page \<Rightarrow> page" where
  "showError msg s = s\<lparr>statusText := assign msg (statusText s)\<rparr>"

section \<open>updateUI\<close>

text \<open>
  \<^verbatim>\<open>rawProb\<close> (lines 107-109): \<^verbatim>\<open>null\<close> when the field is missing, \<^verbatim>\<open>null\<close> or converts to
  \<^verbatim>\<open>NaN\<close>, the converted number otherwise. The conversion can throw.
\<close>

definition rawProb :: "platform \<Rightarrow> jsval \<Rightarrow> exn + jsnum option" where
  "rawProb env data =
     (case own_field data ''probability'' of
        None \<Rightarrow> Inr None
      | Some v \<Rightarrow>
          if v = JNull then Inr None
          else (case to_number env v of
                  Inl e \<Rightarrow> Inl e
                | Inr n \<Rightarrow> Inr (if n = NaN then None else Some n)))"

definition percent :: "platform \<Rightarrow> jsnum option \<Rightarrow> jsnum option" where
  "percent env rp =
     (case rp of None \<Rightarrow> None | Some n \<Rightarrow> Some (math_round (times_const env n 100)))"

definition percent_text :: "platform \<Rightarrow> jsnum option \<Rightarrow> string" where
  "percent_text env pc = (case pc of None \<Rightarrow> ''--%'' | Some n \<Rightarrow> num_string env n @ ''%'')"

text \<open>The em dash of line 115, as its three UTF-8 bytes.\<close>

definition em_dash :: string where
  "em_dash = [CHR 0xE2, CHR 0x80, CHR 0x94]"

text \<open>
  \<^verbatim>\<open>if (statusEl) statusEl.innerText = data.status ?? em_dash\<close>: the setter converts its
  argument to a string, and only when the element exists.
\<close>

definition status_string :: "platform \<Rightarrow> jsval \<Rightarrow> exn + string" where
  "status_string env data =
     (case own_field data ''status'' of
        None \<Rightarrow> Inr em_dash
      | Some v \<Rightarrow> if v = JNull then Inr em_dash else to_string env v)"

definition set_status :: "platform \<Rightarrow> jsval \<Rightarrow> page \<Rightarrow> exn option \<times> page" where
  "set_status env data s =
     (case statusText s of
        None \<Rightarrow> (None, s)
      | Some old \<Rightarrow>
          (case status_string env data of
             Inl e \<Rightarrow> (Some e, s)
           | Inr t \<Rightarrow> (None, s\<lparr>statusText := Some t\<rparr>)))"

text \<open>\<^verbatim>\<open>daysDisplay\<close> (lines 118-126): the server's value first, the bands as the fallback.\<close>

definition daysDisplay :: "platform \<Rightarrow> jsval \<Rightarrow> jsnum option \<Rightarrow> exn + string" where
  "daysDisplay env data rp =
     (let days_left = own_field data ''days_left'' in
      if days_left \<noteq> Some JNull \<and> days_left \<noteq> None then
        (case to_string env (the days_left) of
           Inl e \<Rightarrow> Inl e
         | Inr t \<Rightarrow> Inr (t @ '' days''))
      else
        (case rp of
           None \<Rightarrow> Inr ''-- days''
         | Some p \<Rightarrow>
             Inr (if num_ge p lit_0_95 then ''0 days''
                  else if num_ge p lit_0_75 then ''1 day''
                  else if num_ge p lit_0_60 then ''2 days''
                  else if num_ge p lit_0_40 then ''3 days''
                  else ''-- days'')))"

text \<open>The ring (lines 130-134).\<close>

definition deg :: "platform \<Rightarrow> jsnum option \<Rightarrow> jsnum" where
  "deg env pc =
     (case pc of
        None \<Rightarrow> Finite 0
      | Some n \<Rightarrow> times_const env (math_min100 (math_max0 n)) lit_3_6)"

definition gradient :: "platform \<Rightarrow> jsnum \<Rightarrow> string" where
  "gradient env d =
     ''conic-gradient(var(--accent) '' @ num_string env d @ ''deg, rgba(0,0,0,0.06) ''
       @ num_string env d @ ''deg)''"

subsection \<open>The readings list\<close>

text \<open>
  \<^verbatim>\<open>new Date(v).toLocaleString()\<close>: an \<^verbatim>\<open>undefined\<close> argument gives the time value \<^verbatim>\<open>NaN\<close>,
  whose text is \<^verbatim>\<open>Invalid Date\<close>, and nothing is thrown. An array or object is first
  converted to a primitive, which can throw.
\<close>

definition date_locale_string :: "platform \<Rightarrow> jsval option \<Rightarrow> exn + string" where
  "date_locale_string env v =
     (case v of
        None \<Rightarrow> Inr ''Invalid Date''
      | Some w \<Rightarrow>
          if js_typeof w = TObject \<and> w \<noteq> JNull then
            (case to_string env w of
               Inl e \<Rightarrow> Inl e
             | Inr t \<Rightarrow> Inr (to_locale_string env (JStr t)))
          else Inr (to_locale_string env w))"

text \<open>
  Lines 152-154: \<^verbatim>\<open>try { t = new Date(h.timestamp).toLocaleString(); }
  catch { t = String(h.timestamp || '--'); }\<close>. The handler reads \<^verbatim>\<open>h.timestamp\<close> again, and
  what it throws is not caught.
\<close>

definition time_string :: "platform \<Rightarrow> jsval \<Rightarrow> exn + string" where
  "time_string env h =
     (case (case get_field h ''timestamp'' of
              Inl e \<Rightarrow> Inl e
            | Inr v \<Rightarrow> date_locale_string env v) of
        Inr t \<Rightarrow> Inr t
      | Inl caught \<Rightarrow>
          (case get_field h ''timestamp'' of
             Inl e \<Rightarrow> Inl e
           | Inr v \<Rightarrow> if to_boolean v then to_string env (the v) else Inr ''--''))"

text \<open>Lines 156-158.\<close>

definition value_string :: "platform \<Rightarrow> jsval \<Rightarrow> exn + string" where
  "value_string env h =
     (case get_field h ''resistance'' of
        Inl e \<Rightarrow> Inl e
      | Inr r \<Rightarrow>
          if r \<noteq> None \<and> r \<noteq> Some JNull then to_string env (the r) else Inr ''--'')"

text \<open>One pass of the loop body, up to the \<^verbatim>\<open>appendChild\<close>.\<close>

definition reading_item_of :: "platform \<Rightarrow> jsval \<Rightarrow> exn + reading_item" where
  "reading_item_of env h =
     (case time_string env h of
        Inl e \<Rightarrow> Inl e
      | Inr t \<Rightarrow>
          (case value_string env h of
             Inl e \<Rightarrow> Inl e
           | Inr val \<Rightarrow> Inr (TimeValue t val)))"

text \<open>
  \<^verbatim>\<open>for (const h of show)\<close>, inside \<^verbatim>\<open>if (listEl)\<close>: the items appended before an exception
  stay in the list.
\<close>

fun append_items :: "platform \<Rightarrow> jsval list \<Rightarrow> page \<Rightarrow> exn option \<times> page" where
  "append_items env [] s = (None, s)"
| "append_items env (h # hs) s =
     (case reading_item_of env h of
        Inl e \<Rightarrow> (Some e, s)
      | Inr item \<Rightarrow>
          append_items env hs
            (s\<lparr>readingsList := map_option (\<lambda>items. items @ [item]) (readingsList s)\<rparr>))"

text \<open>Line 139: \<^verbatim>\<open>Array.isArray(data.history) ? data.history.slice().reverse() : []\<close>\<close>

definition history_of :: "jsval \<Rightarrow> jsval list" where
  "history_of data =
     (case own_field data ''history'' of
        Some (JArr xs) \<Rightarrow> rev xs
      | _ \<Rightarrow> [])"

definition render_list :: "platform \<Rightarrow> jsval \<Rightarrow> page \<Rightarrow> exn option \<times> page" where
  "render_list env data s =
     (case readingsList s of
        None \<Rightarrow> (None, s)
      | Some old \<Rightarrow>
          (let history = history_of data in
           if length history = 0 then
             (None, s\<lparr>readingsList := Some [TimeOnly ''No readings yet'']\<rparr>)
           else
             append_items env (take 12 history) (s\<lparr>readingsList := Some []\<rparr>)))"

subsection \<open>The whole function\<close>

definition updateUI :: "platform \<Rightarrow> jsval \<Rightarrow> page \<Rightarrow> exn option \<times> page" where
  "updateUI env data s =
     (if \<not> to_boolean (Some data) \<or> js_typeof data \<noteq> TObject then
        (None, showWaiting (console_error (InvalidData data) s))
      else
        (case rawProb env data of
           Inl e \<Rightarrow> (Some e, s)
         | Inr rp \<Rightarrow>
             (let pc = percent env rp;
                  s1 = s\<lparr>probText := assign (percent_text env pc) (probText s)\<rparr>
              in case set_status env data s1 of
                   (Some e, s2) \<Rightarrow> (Some e, s2)
                 | (None, s2) \<Rightarrow>
                     (case daysDisplay env data rp of
                        Inl e \<Rightarrow> (Some e, s2)
                      | Inr d \<Rightarrow>
                          (let s3 = s2\<lparr>daysText := assign d (daysText s2)\<rparr>;
                               s4 = s3\<lparr>probCircle :=
                                         assign (gradient env (deg env pc)) (probCircle s3)\<rparr>
                           in case render_list env data s4 of
                                (Some e, s5) \<Rightarrow> (Some e, s5)
                              | (None, s5) \<Rightarrow>
                                  (None,
                                   s5\<lparr>sensorReadingsContainer :=
                                        assign (if readingsVisible s5 then ''block'' else ''none'')
                                          (sensorReadingsContainer s5)\<rparr>))))))"

section \<open>fetchLatest\<close>

text \<open>
  What one \<^verbatim>\<open>fetch\<close> brings: a rejected promise, or a response with its status and the value
  \<^verbatim>\<open>resp.json()\<close> resolves to (\<open>None\<close> when the body is not JSON). The body text that line
  54 prints next to a bad status is left out of the console line. Every write of one call
  happens after its last \<^verbatim>\<open>await\<close>, so a call is one step on the page.
\<close>

record response =
  status :: nat
  json_body :: "jsval option"

datatype fetch_outcome = Rejected | Resolved response

definition ok :: "response \<Rightarrow> bool" where
  "ok resp = (200 \<le> status resp \<and> status resp \<le> 299)"

fun decimal :: "nat \<Rightarrow> string" where
  "decimal n =
     (if n < 10 then [''0123456789'' ! n]
      else decimal (n div 10) @ [''0123456789'' ! (n mod 10)])"

declare decimal.simps [simp del]

text \<open>The \<^verbatim>\<open>try\<close> block of lines 46-60.\<close>

definition fetchLatest_try :: "platform \<Rightarrow> fetch_outcome \<Rightarrow> page \<Rightarrow> exn option \<times> page" where
  "fetchLatest_try env outcome s =
     (case outcome of
        Rejected \<Rightarrow> (Some FetchFailed, s)
      | Resolved resp \<Rightarrow>
          if status resp = 204 then (None, showWaiting s)
          else if \<not> ok resp then
            (None,
             showError (''Server '' @ decimal (status resp))
               (console_error (FetchErrorStatus (status resp)) s))
          else
            (case json_body resp of
               None \<Rightarrow> (Some JsonSyntaxError, s)
             | Some data \<Rightarrow> updateUI env data (s\<lparr>lastData := data\<rparr>)))"

definition fetchLatest :: "platform \<Rightarrow> fetch_outcome \<Rightarrow> page \<Rightarrow> page" where
  "fetchLatest env outcome s =
     (case fetchLatest_try env outcome s of
        (None, s') \<Rightarrow> s'
      | (Some err, s') \<Rightarrow> showError ''Server unreachable'' (console_error (FetchException err) s'))"

section \<open>Auxiliary definitions for the proofs\<close>

text \<open>
  What the loop of \<open>append_items\<close> appends, and the exception that stops it, as one pure
  function of the entries.
\<close>

fun rendered :: "platform \<Rightarrow> jsval list \<Rightarrow> reading_item list \<times> exn option" where
  "rendered env [] = ([], None)"
| "rendered env (h # hs) =
     (case reading_item_of env h of
        Inl e \<Rightarrow> ([], Some e)
      | Inr item \<Rightarrow> (item # fst (rendered env hs), snd (rendered env hs)))"

text \<open>The page apart from what \<^verbatim>\<open>console.error\<close> has printed.\<close>

definition forget_console :: "page \<Rightarrow> page" where
  "forget_console s = s\<lparr>console := []\<rparr>"

text \<open>The lines \<open>fetchLatest\<close> prints next to each of its calls of \<open>showError\<close>.\<close>

fun is_fetch_error :: "log_entry \<Rightarrow> bool" where
  "is_fetch_error (InvalidData d) = False"
| "is_fetch_error (FetchErrorStatus n) = True"
| "is_fetch_error (FetchException e) = True"

definition fetch_errors :: "page \<Rightarrow> log_entry list" where
  "fetch_errors s = filter is_fetch_error (console s)"

text \<open>
  A request that fails: the promise of \<^verbatim>\<open>fetch\<close> rejects, the status is not OK, or the body
  of an OK response other than 204 is not JSON.
\<close>

fun request_failed :: "fetch_outcome \<Rightarrow> bool" where
  "request_failed Rejected = True"
| "request_failed (Resolved resp) =
     (\<not> ok resp \<or> (status resp \<noteq> 204 \<and> json_body resp = None))"

text \<open>
  When \<open>fetchLatest\<close> ends in \<open>showError\<close>: the request fails, or rendering the parsed body
  throws. The message it then shows.
\<close>

definition ends_in_error :: "platform \<Rightarrow> fetch_outcome \<Rightarrow> page \<Rightarrow> bool" where
  "ends_in_error env outcome s =
     (case outcome of
        Rejected \<Rightarrow> True
      | Resolved resp \<Rightarrow>
          \<not> ok resp \<or>
          (status resp \<noteq> 204 \<and>
           (case json_body resp of
              None \<Rightarrow> True
            | Some data \<Rightarrow> fst (updateUI env data (s\<lparr>lastData := data\<rparr>)) \<noteq> None)))"

definition error_message :: "fetch_outcome \<Rightarrow> string" where
  "error_message outcome =
     (case outcome of
        Rejected \<Rightarrow> ''Server unreachable''
      | Resolved resp \<Rightarrow>
          if ok resp then ''Server unreachable'' else ''Server '' @ decimal (status resp))"

text \<open>
  Modelled from the spec: the Snapshot of section 3 and the result of a query of section 4.6
  (a snapshot, or \<open>NoData\<close> before the first ingestion). The server that builds and serves
  them is not among the sources.
\<close>

record snapshot =
  snap_probability :: real
  snap_status :: string
  snap_days_left :: "nat option"
  snap_history :: "(real \<times> string) list"

datatype query_result = NoData | Latest snapshot

text \<open>
  Modelled from the spec: \<open>getLatest\<close> of the Query Endpoint (section 4.6), whose code is not
  among the sources. The endpoint holds the current snapshot, or nothing before the first
  ingestion; \<open>getLatest\<close> returns that snapshot, or \<open>NoData\<close>, and is read-only: the endpoint
  is returned as it was.
\<close>

definition getLatest :: "snapshot option \<Rightarrow> query_result \<times> snapshot option" where
  "getLatest current =
     ((case current of None \<Rightarrow> NoData | Some snap \<Rightarrow> Latest snap), current)"

text \<open>
  A platform and a page to run the model on: products are exact (not rounded to a double),
  a number prints as the decimal digits of its integer part, no string spells a number, and
  a date prints as the string it was made from. The page has every element, all of them
  empty.
\<close>

definition sample_platform :: platform where
  "sample_platform =
     \<lparr>float_mul = (\<lambda>a b. Finite (a * b)),
      number_to_string =
        (\<lambda>x. if x < 0 then CHR ''-'' # decimal (nat \<lfloor>- x\<rfloor>) else decimal (nat \<lfloor>x\<rfloor>)),
      string_to_number = (\<lambda>t. NaN),
      to_locale_string = (\<lambda>v. case v of JStr t \<Rightarrow> t | _ \<Rightarrow> ''Invalid Date'')\<rparr>"

definition sample_page :: page where
  "sample_page =
     \<lparr>probText = Some [], statusText = Some [], daysText = Some [], probCircle = Some [],
      readingsList = Some [], sensorReadingsContainer = Some [], readingsVisible = True,
      lastData = JNull, console = []\<rparr>"

text \<open>Thirteen readings, numbered 1 to 13 in the order of the array.\<close>

definition sample_reading :: "nat \<Rightarrow> jsval" where
  "sample_reading n =
     JObj [(''resistance'', JNum (Finite (of_nat (800 + n)))), (''timestamp'', JStr (decimal n))]"

definition sample_history :: "jsval list" where
  "sample_history = map sample_reading [1, 2, 3, 4, 5, 6, 7, 8, 9, 10, 11, 12, 13]"

section \<open>The shape of updateUI's result\<close>

lemma append_items_eq:
  "append_items env hs s =
     (snd (rendered env hs),
      s\<lparr>readingsList := map_option (\<lambda>items. items @ fst (rendered env hs)) (readingsList s)\<rparr>)"
proof (induction hs arbitrary: s)
  case Nil
  show ?case by (simp add: option.map_ident)
next
  case (Cons h hs)
  show ?case
    by (cases "reading_item_of env h")
       (simp_all add: Cons.IH option.map_comp comp_def option.map_ident)
qed

lemma length_rendered: "length (fst (rendered env hs)) \<le> length hs"
  by (induction hs) (auto split: sum.splits)

lemma rendered_all:
  "\<forall>h \<in> set hs. reading_item_of env h = Inr (item h) \<Longrightarrow> rendered env hs = (map item hs, None)"
  by (induction hs) simp_all

lemma render_list_eq:
  "render_list env data s =
     (case readingsList s of
        None \<Rightarrow> (None, s)
      | Some old \<Rightarrow>
          if history_of data = [] then
            (None, s\<lparr>readingsList := Some [TimeOnly ''No readings yet'']\<rparr>)
          else
            (snd (rendered env (take 12 (history_of data))),
             s\<lparr>readingsList := Some (fst (rendered env (take 12 (history_of data))))\<rparr>))"
  by (simp add: render_list_def append_items_eq Let_def split: option.splits)

lemma own_field_object:
  "own_field data k = Some v \<Longrightarrow> to_boolean (Some data) \<and> js_typeof data = TObject"
  by (cases data) simp_all

lemma set_status_eq:
  "statusText s = None \<or> status_string env data = Inr st \<Longrightarrow>
   set_status env data s = (None, s\<lparr>statusText := assign st (statusText s)\<rparr>)"
  by (auto simp add: set_status_def assign_def split: option.splits)

lemma updateUI_not_object:
  "\<not> (to_boolean (Some data) \<and> js_typeof data = TObject) \<Longrightarrow>
   updateUI env data s = (None, showWaiting (console_error (InvalidData data) s))"
  by (auto simp add: updateUI_def)

lemma updateUI_rawProb_throws:
  "to_boolean (Some data) \<Longrightarrow> js_typeof data = TObject \<Longrightarrow> rawProb env data = Inl e \<Longrightarrow>
   updateUI env data s = (Some e, s)"
  by (simp add: updateUI_def)

lemma updateUI_status_throws:
  "to_boolean (Some data) \<Longrightarrow> js_typeof data = TObject \<Longrightarrow> rawProb env data = Inr rp \<Longrightarrow>
   statusText s = Some old \<Longrightarrow> status_string env data = Inl e \<Longrightarrow>
   updateUI env data s =
     (Some e, s\<lparr>probText := assign (percent_text env (percent env rp)) (probText s)\<rparr>)"
  by (simp add: updateUI_def set_status_def Let_def)

lemma updateUI_days_throws:
  "to_boolean (Some data) \<Longrightarrow> js_typeof data = TObject \<Longrightarrow> rawProb env data = Inr rp \<Longrightarrow>
   statusText s = None \<or> status_string env data = Inr st \<Longrightarrow>
   daysDisplay env data rp = Inl e \<Longrightarrow>
   updateUI env data s =
     (Some e, s\<lparr>probText := assign (percent_text env (percent env rp)) (probText s),
                 statusText := assign st (statusText s)\<rparr>)"
  by (simp add: updateUI_def set_status_eq [where st = st] Let_def)

lemma updateUI_steps:
  assumes "to_boolean (Some data)" and "js_typeof data = TObject"
    and "rawProb env data = Inr rp"
    and "statusText s = None \<or> status_string env data = Inr st"
    and "daysDisplay env data rp = Inr d"
  shows "updateUI env data s =
    (let s4 = s\<lparr>probText := assign (percent_text env (percent env rp)) (probText s),
                 statusText := assign st (statusText s),
                 daysText := assign d (daysText s),
                 probCircle := assign (gradient env (deg env (percent env rp))) (probCircle s)\<rparr>;
         display = assign (if readingsVisible s then ''block'' else ''none'')
                          (sensorReadingsContainer s);
         r = rendered env (take 12 (history_of data))
     in case readingsList s of
          None \<Rightarrow> (None, s4\<lparr>sensorReadingsContainer := display\<rparr>)
        | Some old \<Rightarrow>
            if history_of data = [] then
              (None, s4\<lparr>readingsList := Some [TimeOnly ''No readings yet''],
                         sensorReadingsContainer := display\<rparr>)
            else
              (case snd r of
                 Some e \<Rightarrow> (Some e, s4\<lparr>readingsList := Some (fst r)\<rparr>)
               | None \<Rightarrow> (None, s4\<lparr>readingsList := Some (fst r),
                                     sensorReadingsContainer := display\<rparr>)))"
  using assms
  by (simp add: updateUI_def set_status_eq [where st = st] Let_def render_list_eq
           split: option.splits)

lemma updateUI_daysText:
  assumes "to_boolean (Some data)" and "js_typeof data = TObject"
    and "rawProb env data = Inr rp"
    and "statusText s = None \<or> status_string env data = Inr st"
    and "daysDisplay env data rp = Inr d"
  shows "daysText (snd (updateUI env data s)) = assign d (daysText s)"
  by (simp add: updateUI_steps [OF assms] Let_def split: option.splits)

section \<open>Days left\<close>

lemma rawProb_finite:
  "own_field data ''probability'' = Some v \<Longrightarrow> v \<noteq> JNull \<Longrightarrow>
   to_number env v = Inr (Finite p) \<Longrightarrow> rawProb env data = Inr (Some (Finite p))"
  by (simp add: rawProb_def)

lemma literals_nearest:
  "\<bar>lit_0_95 - 95 / 100\<bar> < 1 / 2 ^ 54"
  "lit_0_75 = 75 / 100"
  "\<bar>lit_0_60 - 60 / 100\<bar> < 1 / 2 ^ 54"
  "\<bar>lit_0_40 - 40 / 100\<bar> < 1 / 2 ^ 55"
  "\<bar>lit_3_6 - 36 / 10\<bar> < 1 / 2 ^ 52"
  by (simp_all add: lit_0_95_def lit_0_75_def lit_0_60_def lit_0_40_def lit_3_6_def)

lemma literals_side:
  "lit_0_95 < 95 / 100" "lit_0_60 < 60 / 100" "40 / 100 < lit_0_40" "36 / 10 < lit_3_6"
  by (simp_all add: lit_0_95_def lit_0_60_def lit_0_40_def lit_3_6_def)

lemma literals_ordered:
  "lit_0_40 < lit_0_60" "lit_0_60 < lit_0_75" "lit_0_75 < lit_0_95"
  by (simp_all add: lit_0_95_def lit_0_75_def lit_0_60_def lit_0_40_def)

lemma daysDisplay_fallback:
  "own_field data ''days_left'' = None \<or> own_field data ''days_left'' = Some JNull \<Longrightarrow>
   daysDisplay env data (Some (Finite p)) =
     Inr (if lit_0_95 \<le> p then ''0 days''
          else if lit_0_75 \<le> p then ''1 day''
          else if lit_0_60 \<le> p then ''2 days''
          else if lit_0_40 \<le> p then ''3 days''
          else ''-- days'')"
  by (auto simp add: daysDisplay_def Let_def)

text \<open>
  C1. When \<^verbatim>\<open>days_left\<close> is missing or \<^verbatim>\<open>null\<close> and \<^verbatim>\<open>probability\<close> converts to a finite
  number \<open>p\<close>, the text written to \<^verbatim>\<open>#daysText\<close> follows the bands, each closed at its lower
  bound: \<^verbatim>\<open>p >= 0.95\<close> gives \<^verbatim>\<open>0 days\<close>, \<^verbatim>\<open>0.75 <= p < 0.95\<close> gives \<^verbatim>\<open>1 day\<close>,
  \<^verbatim>\<open>0.60 <= p < 0.75\<close> gives \<^verbatim>\<open>2 days\<close>, \<^verbatim>\<open>0.40 <= p < 0.60\<close> gives \<^verbatim>\<open>3 days\<close>, and
  \<^verbatim>\<open>p < 0.40\<close> gives the placeholder \<^verbatim>\<open>-- days\<close>, never a number. The bounds are the
  numbers the literals denote, so a probability sent as \<^verbatim>\<open>0.95\<close> is in the first band and
  one sent as \<^verbatim>\<open>0.6\<close> in the third. The write of line 127 is reached when the status of line
  115 converts to a string; what the list does afterwards does not matter.
\<close>

theorem days_left_bands:
  assumes "own_field data ''probability'' = Some v" and "v \<noteq> JNull"
    and "to_number env v = Inr (Finite p)"
    and "own_field data ''days_left'' = None \<or> own_field data ''days_left'' = Some JNull"
    and "status_string env data = Inr st"
  shows "(lit_0_95 \<le> p \<longrightarrow>
            daysText (snd (updateUI env data s)) = assign ''0 days'' (daysText s))
       \<and> (lit_0_75 \<le> p \<and> p < lit_0_95 \<longrightarrow>
            daysText (snd (updateUI env data s)) = assign ''1 day'' (daysText s))
       \<and> (lit_0_60 \<le> p \<and> p < lit_0_75 \<longrightarrow>
            daysText (snd (updateUI env data s)) = assign ''2 days'' (daysText s))
       \<and> (lit_0_40 \<le> p \<and> p < lit_0_60 \<longrightarrow>
            daysText (snd (updateUI env data s)) = assign ''3 days'' (daysText s))
       \<and> (p < lit_0_40 \<longrightarrow>
            daysText (snd (updateUI env data s)) = assign ''-- days'' (daysText s))"
proof -
  note obj = own_field_object [OF assms(1)]
  have rp: "rawProb env data = Inr (Some (Finite p))"
    using assms(1-3) by (rule rawProb_finite)
  have st: "statusText s = None \<or> status_string env data = Inr st"
    using assms(5) by simp
  note dd = daysDisplay_fallback [OF assms(4), of env p]
  have "daysText (snd (updateUI env data s)) =
          assign (if lit_0_95 \<le> p then ''0 days''
                  else if lit_0_75 \<le> p then ''1 day''
                  else if lit_0_60 \<le> p then ''2 days''
                  else if lit_0_40 \<le> p then ''3 days''
                  else ''-- days'') (daysText s)"
    using obj rp st dd by (intro updateUI_daysText) simp_all
  then show ?thesis
    using literals_ordered by auto
qed

theorem days_left_bands_witness:
  "own_field (JObj [(''probability'', JNum (Finite lit_0_95))]) ''probability''
     = Some (JNum (Finite lit_0_95))
   \<and> to_number sample_platform (JNum (Finite lit_0_95)) = Inr (Finite lit_0_95)
   \<and> own_field (JObj [(''probability'', JNum (Finite lit_0_95))]) ''days_left'' = None
   \<and> status_string sample_platform (JObj [(''probability'', JNum (Finite lit_0_95))])
     = Inr em_dash
   \<and> daysText (snd (updateUI sample_platform
        (JObj [(''probability'', JNum (Finite lit_0_95))]) sample_page)) = Some ''0 days''
   \<and> own_field (JObj [(''probability'', JNum (Finite lit_0_60))]) ''probability''
     = Some (JNum (Finite lit_0_60))
   \<and> to_number sample_platform (JNum (Finite lit_0_60)) = Inr (Finite lit_0_60)
   \<and> own_field (JObj [(''probability'', JNum (Finite lit_0_60))]) ''days_left'' = None
   \<and> status_string sample_platform (JObj [(''probability'', JNum (Finite lit_0_60))])
     = Inr em_dash
   \<and> daysText (snd (updateUI sample_platform
        (JObj [(''probability'', JNum (Finite lit_0_60))]) sample_page)) = Some ''2 days''"
  using days_left_bands [of "JObj [(''probability'', JNum (Finite lit_0_95))]"
      "JNum (Finite lit_0_95)" sample_platform lit_0_95 em_dash sample_page]
    days_left_bands [of "JObj [(''probability'', JNum (Finite lit_0_60))]"
      "JNum (Finite lit_0_60)" sample_platform lit_0_60 em_dash sample_page]
    literals_ordered
  by (simp add: status_string_def assign_def sample_page_def)

text \<open>
  C2. When the response carries a \<^verbatim>\<open>days_left\<close> that is neither missing nor \<^verbatim>\<open>null\<close>,
  \<^verbatim>\<open>#daysText\<close> shows that value (its string, followed by \<^verbatim>\<open> days\<close>) whatever the
  probability is: the bands are a fallback only. The write is reached when the probability and
  the status convert without an exception.
\<close>

theorem days_left_server_value:
  assumes "own_field data ''days_left'' = Some v" and "v \<noteq> JNull"
    and "to_string env v = Inr t"
    and "rawProb env data = Inr rp"
    and "status_string env data = Inr st"
  shows "daysText (snd (updateUI env data s)) = assign (t @ '' days'') (daysText s)"
proof -
  note obj = own_field_object [OF assms(1)]
  have "daysDisplay env data rp = Inr (t @ '' days'')"
    using assms(1-3) by (simp add: daysDisplay_def)
  moreover have "statusText s = None \<or> status_string env data = Inr st"
    using assms(5) by simp
  ultimately show ?thesis
    using obj assms(4) by (intro updateUI_daysText) simp_all
qed

theorem days_left_server_value_witness:
  "own_field (JObj [(''probability'', JNum (Finite lit_0_95)), (''days_left'', JNum (Finite 4))])
     ''days_left'' = Some (JNum (Finite 4))
   \<and> to_string sample_platform (JNum (Finite 4)) = Inr ''4''
   \<and> rawProb sample_platform
        (JObj [(''probability'', JNum (Finite lit_0_95)), (''days_left'', JNum (Finite 4))])
     = Inr (Some (Finite lit_0_95))
   \<and> status_string sample_platform
        (JObj [(''probability'', JNum (Finite lit_0_95)), (''days_left'', JNum (Finite 4))])
     = Inr em_dash
   \<and> daysText (snd (updateUI sample_platform
        (JObj [(''probability'', JNum (Finite lit_0_95)), (''days_left'', JNum (Finite 4))])
        sample_page)) = Some ''4 days''"
  using days_left_server_value
    [of "JObj [(''probability'', JNum (Finite lit_0_95)), (''days_left'', JNum (Finite 4))]"
      "JNum (Finite 4)" sample_platform "''4''" "Some (Finite lit_0_95)" em_dash sample_page]
  by (simp add: status_string_def rawProb_def assign_def sample_page_def num_string_def
        sample_platform_def decimal.simps)

section \<open>The readings list\<close>

lemma updateUI_cases [case_names invalid raw status days list]:
  obtains
    "\<not> (to_boolean (Some data) \<and> js_typeof data = TObject)"
  | e where "to_boolean (Some data)" and "js_typeof data = TObject"
      and "rawProb env data = Inl e"
  | rp old e where "to_boolean (Some data)" and "js_typeof data = TObject"
      and "rawProb env data = Inr rp"
      and "statusText s = Some old" and "status_string env data = Inl e"
  | rp st e where "to_boolean (Some data)" and "js_typeof data = TObject"
      and "rawProb env data = Inr rp"
      and "statusText s = None \<or> status_string env data = Inr st"
      and "daysDisplay env data rp = Inl e"
  | rp st d where "to_boolean (Some data)" and "js_typeof data = TObject"
      and "rawProb env data = Inr rp"
      and "statusText s = None \<or> status_string env data = Inr st"
      and "daysDisplay env data rp = Inr d"
proof (cases "to_boolean (Some data) \<and> js_typeof data = TObject")
  case False
  then show ?thesis by (rule that(1))
next
  case obj: True
  show ?thesis
  proof (cases "rawProb env data")
    case (Inl e)
    with obj show ?thesis by (intro that(2)) simp_all
  next
    case rp: (Inr rp)
    have "(\<exists>old e. statusText s = Some old \<and> status_string env data = Inl e)
        \<or> (\<exists>st. statusText s = None \<or> status_string env data = Inr st)"
      by (cases "status_string env data"; cases "statusText s") simp_all
    then show ?thesis
    proof
      assume "\<exists>old e. statusText s = Some old \<and> status_string env data = Inl e"
      then obtain old e where "statusText s = Some old" and "status_string env data = Inl e"
        by blast
      with obj rp show ?thesis by (intro that(3)) simp_all
    next
      assume "\<exists>st. statusText s = None \<or> status_string env data = Inr st"
      then obtain st where st: "statusText s = None \<or> status_string env data = Inr st" ..
      show ?thesis
      proof (cases "daysDisplay env data rp")
        case (Inl e)
        with obj rp st show ?thesis by (intro that(4)) simp_all
      next
        case (Inr d)
        with obj rp st show ?thesis by (intro that(5)) simp_all
      qed
    qed
  qed
qed

text \<open>
  C5. Whatever the length of the \<^verbatim>\<open>history\<close> array, the readings list \<open>updateUI\<close> leaves
  behind has at most 12 entries, unless \<open>updateUI\<close> never wrote it (the element is missing, or
  an exception came before line 137) and it is the list that was there before.
\<close>

theorem readings_list_cap:
  assumes "readingsList (snd (updateUI env data s)) = Some items"
  shows "length items \<le> 12 \<or> readingsList s = Some items"
proof (cases rule: updateUI_cases [where data = data and env = env and s = s])
  case invalid
  with assms show ?thesis
    by (auto simp add: updateUI_not_object showWaiting_def console_error_def assign_def
          split: option.splits)
next
  case (raw e)
  with assms show ?thesis by (simp add: updateUI_rawProb_throws)
next
  case (status rp old e)
  with assms show ?thesis by (simp add: updateUI_status_throws)
next
  case (days rp st e)
  with assms show ?thesis by (simp add: updateUI_days_throws [where st = st])
next
  case (list rp st d)
  have "length (fst (rendered env (take 12 (history_of data)))) \<le> 12"
    using length_rendered [of env "take 12 (history_of data)"] by simp
  with assms show ?thesis
    by (auto simp add: updateUI_steps [OF list] Let_def split: option.splits if_splits)
qed

lemma sample_reading_item:
  "reading_item_of sample_platform (sample_reading n)
     = Inr (TimeValue (decimal n) (decimal (800 + n)))"
proof -
  have "nat (800 + int n) = 800 + n"
    by simp
  then show ?thesis
    by (simp add: reading_item_of_def time_string_def value_string_def get_field_def
        sample_reading_def date_locale_string_def num_string_def sample_platform_def)
qed

lemma sample_history_rendered:
  "rendered sample_platform (take 12 (rev sample_history))
     = (map (\<lambda>n. TimeValue (decimal n) (decimal (800 + n)))
          [13, 12, 11, 10, 9, 8, 7, 6, 5, 4, 3, 2], None)"
  by (simp add: sample_history_def sample_reading_item)

lemma sample_history_shown:
  "updateUI sample_platform (JObj [(''history'', JArr sample_history)]) sample_page
     = (None,
        sample_page\<lparr>probText := Some ''--%'', statusText := Some em_dash,
          daysText := Some ''-- days'',
          probCircle := Some (gradient sample_platform (Finite 0)),
          readingsList := Some (map (\<lambda>n. TimeValue (decimal n) (decimal (800 + n)))
                                 [13, 12, 11, 10, 9, 8, 7, 6, 5, 4, 3, 2]),
          sensorReadingsContainer := Some ''block''\<rparr>)"
proof -
  have "sample_history \<noteq> []"
    by (simp add: sample_history_def)
  then show ?thesis
    by (simp add: updateUI_steps [where rp = None and st = em_dash and d = "''-- days''"]
          rawProb_def status_string_def daysDisplay_def history_of_def sample_history_rendered
          percent_def percent_text_def deg_def assign_def sample_page_def)
qed

theorem readings_list_cap_witness:
  "readingsList (snd (updateUI sample_platform (JObj [(''history'', JArr sample_history)])
      sample_page))
     = Some (map (\<lambda>n. TimeValue (decimal n) (decimal (800 + n)))
               [13, 12, 11, 10, 9, 8, 7, 6, 5, 4, 3, 2])
   \<and> (length (map (\<lambda>n. TimeValue (decimal n) (decimal (800 + n)))
                 [13, 12, 11, 10, 9, 8, 7, 6, 5, 4, 3, 2 :: nat]) \<le> 12
        \<or> readingsList sample_page
            = Some (map (\<lambda>n. TimeValue (decimal n) (decimal (800 + n)))
                      [13, 12, 11, 10, 9, 8, 7, 6, 5, 4, 3, 2]))"
proof -
  have shown:
    "readingsList (snd (updateUI sample_platform (JObj [(''history'', JArr sample_history)])
        sample_page))
       = Some (map (\<lambda>n. TimeValue (decimal n) (decimal (800 + n)))
                 [13, 12, 11, 10, 9, 8, 7, 6, 5, 4, 3, 2])"
    by (simp add: sample_history_shown)
  from shown readings_list_cap [OF shown] show ?thesis ..
qed

lemma updateUI_readingsList:
  assumes "own_field data ''history'' = Some (JArr xs)" and "xs \<noteq> []"
    and "rawProb env data = Inr rp"
    and "statusText s = None \<or> status_string env data = Inr st"
    and "daysDisplay env data rp = Inr d"
  shows "readingsList (snd (updateUI env data s))
           = assign (fst (rendered env (take 12 (rev xs)))) (readingsList s)"
proof -
  note obj = own_field_object [OF assms(1)]
  have "history_of data = rev xs"
    using assms(1) by (simp add: history_of_def)
  with assms(2) show ?thesis
    using obj assms(3-5)
    by (simp add: updateUI_steps [where rp = rp and st = st and d = d] Let_def assign_def
          split: option.splits)
qed

text \<open>
  C3, as the spec states it, fails: the list does not keep the order of the \<^verbatim>\<open>history\<close>
  array. For a history of two readings, the most recent (number 2) first, the page lists
  reading 1 first.
\<close>

theorem readings_order_counterexample:
  "readingsList (snd (updateUI sample_platform
      (JObj [(''history'', JArr [sample_reading 2, sample_reading 1])]) sample_page))
     = Some [TimeValue ''1'' ''801'', TimeValue ''2'' ''802'']
   \<and> readingsList (snd (updateUI sample_platform
      (JObj [(''history'', JArr [sample_reading 2, sample_reading 1])]) sample_page))
     \<noteq> Some [TimeValue ''2'' ''802'', TimeValue ''1'' ''801'']"
proof -
  have "rendered sample_platform (take 12 (rev [sample_reading 2, sample_reading 1]))
          = ([TimeValue ''1'' ''801'', TimeValue ''2'' ''802''], None)"
    by (simp add: sample_reading_item decimal.simps)
  then show ?thesis
    by (simp add: updateUI_readingsList [where rp = None and st = em_dash and d = "''-- days''"]
          rawProb_def status_string_def daysDisplay_def assign_def sample_page_def)
qed

text \<open>
  C3, amended. Line 139 reverses the array before line 147 cuts it to 12: the list shows the
  last 12 entries of \<^verbatim>\<open>history\<close>, the last entry of the array first. (So a history that
  is ordered oldest first is listed most recent first.) Stated for a rendering in which no
  conversion throws.
\<close>

theorem readings_reversed:
  assumes "own_field data ''history'' = Some (JArr xs)" and "xs \<noteq> []"
    and "rawProb env data = Inr rp"
    and "status_string env data = Inr st"
    and "daysDisplay env data rp = Inr d"
    and "\<forall>h \<in> set xs. \<not> isl (reading_item_of env h)"
  shows "readingsList (snd (updateUI env data s))
           = assign (map (\<lambda>h. projr (reading_item_of env h)) (take 12 (rev xs)))
               (readingsList s)"
proof -
  have "\<forall>h \<in> set (take 12 (rev xs)).
          reading_item_of env h = Inr (projr (reading_item_of env h))"
  proof
    fix h
    assume "h \<in> set (take 12 (rev xs))"
    then have "h \<in> set xs"
      using set_take_subset [of 12 "rev xs"] by auto
    with assms(6) have "\<not> isl (reading_item_of env h)" by simp
    then show "reading_item_of env h = Inr (projr (reading_item_of env h))"
      by (cases "reading_item_of env h") simp_all
  qed
  then have "rendered env (take 12 (rev xs))
               = (map (\<lambda>h. projr (reading_item_of env h)) (take 12 (rev xs)), None)"
    by (rule rendered_all)
  moreover have "statusText s = None \<or> status_string env data = Inr st"
    using assms(4) by simp
  ultimately show ?thesis
    using updateUI_readingsList [OF assms(1-3) _ assms(5), of s st] by simp
qed

theorem readings_reversed_witness:
  "own_field (JObj [(''history'', JArr [sample_reading 2, sample_reading 1])]) ''history''
     = Some (JArr [sample_reading 2, sample_reading 1])
   \<and> rawProb sample_platform (JObj [(''history'', JArr [sample_reading 2, sample_reading 1])])
     = Inr None
   \<and> status_string sample_platform
        (JObj [(''history'', JArr [sample_reading 2, sample_reading 1])]) = Inr em_dash
   \<and> daysDisplay sample_platform
        (JObj [(''history'', JArr [sample_reading 2, sample_reading 1])]) None
     = Inr ''-- days''
   \<and> \<not> isl (reading_item_of sample_platform (sample_reading 2))
   \<and> \<not> isl (reading_item_of sample_platform (sample_reading 1))
   \<and> readingsList (snd (updateUI sample_platform
        (JObj [(''history'', JArr [sample_reading 2, sample_reading 1])]) sample_page))
     = Some [projr (reading_item_of sample_platform (sample_reading 1)),
             projr (reading_item_of sample_platform (sample_reading 2))]"
  using readings_reversed
    [of "JObj [(''history'', JArr [sample_reading 2, sample_reading 1])]"
      "[sample_reading 2, sample_reading 1]" sample_platform None em_dash "''-- days''"
      sample_page]
  by (simp add: sample_reading_item rawProb_def status_string_def daysDisplay_def assign_def
        sample_page_def)

section \<open>Errors and the waiting state\<close>

lemma fetchLatest_Rejected:
  "fetchLatest env Rejected s
     = showError ''Server unreachable'' (console_error (FetchException FetchFailed) s)"
  by (simp add: fetchLatest_def fetchLatest_try_def)

lemma fetchLatest_204:
  "status resp = 204 \<Longrightarrow> fetchLatest env (Resolved resp) s = showWaiting s"
  by (simp add: fetchLatest_def fetchLatest_try_def)

lemma fetchLatest_not_ok:
  "\<not> ok resp \<Longrightarrow>
   fetchLatest env (Resolved resp) s
     = showError (''Server '' @ decimal (status resp))
         (console_error (FetchErrorStatus (status resp)) s)"
  by (auto simp add: fetchLatest_def fetchLatest_try_def ok_def)

lemma fetchLatest_not_json:
  "ok resp \<Longrightarrow> status resp \<noteq> 204 \<Longrightarrow> json_body resp = None \<Longrightarrow>
   fetchLatest env (Resolved resp) s
     = showError ''Server unreachable'' (console_error (FetchException JsonSyntaxError) s)"
  by (simp add: fetchLatest_def fetchLatest_try_def)

lemma fetchLatest_json:
  "ok resp \<Longrightarrow> status resp \<noteq> 204 \<Longrightarrow> json_body resp = Some data \<Longrightarrow>
   fetchLatest env (Resolved resp) s
     = (case updateUI env data (s\<lparr>lastData := data\<rparr>) of
          (None, s') \<Rightarrow> s'
        | (Some err, s') \<Rightarrow>
            showError ''Server unreachable'' (console_error (FetchException err) s'))"
  by (simp add: fetchLatest_def fetchLatest_try_def)

lemma fetchLatest_failed:
  assumes "request_failed outcome"
  obtains msg entry where
    "fetchLatest env outcome s = showError msg (console_error entry s)"
proof (cases outcome)
  case Rejected
  then show ?thesis using that by (simp add: fetchLatest_Rejected)
next
  case (Resolved resp)
  show ?thesis
  proof (cases "ok resp")
    case False
    with Resolved show ?thesis using that by (simp add: fetchLatest_not_ok)
  next
    case True
    with Resolved assms show ?thesis using that by (simp add: fetchLatest_not_json)
  qed
qed

text \<open>
  C9. \<open>showError\<close> writes the status text and nothing else: the probability text, the
  days-left text, the ring, the readings list, the visibility of the readings and both
  globals are what they were. The same holds for a whole call of \<open>fetchLatest\<close> whose request
  fails, which does nothing to the page but call \<open>showError\<close>.
\<close>

theorem showError_frame:
  "statusText (showError msg s) = assign msg (statusText s)
   \<and> probText (showError msg s) = probText s
   \<and> daysText (showError msg s) = daysText s
   \<and> probCircle (showError msg s) = probCircle s
   \<and> readingsList (showError msg s) = readingsList s
   \<and> sensorReadingsContainer (showError msg s) = sensorReadingsContainer s
   \<and> readingsVisible (showError msg s) = readingsVisible s
   \<and> lastData (showError msg s) = lastData s
   \<and> (request_failed outcome \<longrightarrow>
        probText (fetchLatest env outcome s) = probText s
      \<and> daysText (fetchLatest env outcome s) = daysText s
      \<and> probCircle (fetchLatest env outcome s) = probCircle s
      \<and> readingsList (fetchLatest env outcome s) = readingsList s
      \<and> sensorReadingsContainer (fetchLatest env outcome s) = sensorReadingsContainer s)"
proof -
  have "probText (fetchLatest env outcome s) = probText s
      \<and> daysText (fetchLatest env outcome s) = daysText s
      \<and> probCircle (fetchLatest env outcome s) = probCircle s
      \<and> readingsList (fetchLatest env outcome s) = readingsList s
      \<and> sensorReadingsContainer (fetchLatest env outcome s) = sensorReadingsContainer s"
    if "request_failed outcome"
  proof -
    from that obtain m entry where
      "fetchLatest env outcome s = showError m (console_error entry s)"
      by (rule fetchLatest_failed)
    then show ?thesis by (simp add: showError_def console_error_def)
  qed
  then show ?thesis by (simp add: showError_def)
qed

theorem showError_frame_witness:
  "request_failed (Resolved \<lparr>status = 500, json_body = None\<rparr>)
   \<and> statusText (showError ''Server 500'' sample_page) = Some ''Server 500''
   \<and> probText (fetchLatest sample_platform (Resolved \<lparr>status = 500, json_body = None\<rparr>)
        sample_page) = probText sample_page
   \<and> readingsList (fetchLatest sample_platform (Resolved \<lparr>status = 500, json_body = None\<rparr>)
        sample_page) = readingsList sample_page"
  using showError_frame [of "''Server 500''" sample_page
      "Resolved \<lparr>status = 500, json_body = None\<rparr>" sample_platform]
  by (simp add: ok_def assign_def sample_page_def)

lemma updateUI_console:
  "console (snd (updateUI env data s))
     = console s @ (if to_boolean (Some data) \<and> js_typeof data = TObject then []
                    else [InvalidData data])"
proof (cases rule: updateUI_cases [where data = data and env = env and s = s])
  case invalid
  then show ?thesis
    by (auto simp add: updateUI_not_object showWaiting_def console_error_def)
next
  case (raw e)
  then show ?thesis by (simp add: updateUI_rawProb_throws)
next
  case (status rp old e)
  then show ?thesis by (simp add: updateUI_status_throws)
next
  case (days rp st e)
  then show ?thesis by (simp add: updateUI_days_throws [where st = st])
next
  case (list rp st d)
  then show ?thesis
    by (simp add: updateUI_steps [where rp = rp and st = st and d = d] Let_def
          split: option.splits)
qed

lemma updateUI_statusText_present:
  "assign m (statusText (snd (updateUI env data s))) = assign m (statusText s)"
proof (cases rule: updateUI_cases [where data = data and env = env and s = s])
  case invalid
  then show ?thesis
    by (auto simp add: updateUI_not_object showWaiting_def console_error_def assign_def
          split: option.splits)
next
  case (raw e)
  then show ?thesis by (simp add: updateUI_rawProb_throws)
next
  case (status rp old e)
  then show ?thesis by (simp add: updateUI_status_throws)
next
  case (days rp st e)
  then show ?thesis
    by (simp add: updateUI_days_throws [where st = st] assign_def split: option.splits)
next
  case (list rp st d)
  then show ?thesis
    by (simp add: updateUI_steps [where rp = rp and st = st and d = d] Let_def assign_def
          split: option.splits)
qed

lemma fetch_errors_updateUI:
  "fetch_errors (snd (updateUI env data s)) = fetch_errors s"
  by (simp add: fetch_errors_def updateUI_console)

lemma fetch_errors_error:
  "is_fetch_error entry \<Longrightarrow>
   fetch_errors (showError m (console_error entry s)) = fetch_errors s @ [entry]"
  by (simp add: fetch_errors_def showError_def console_error_def)

lemma ends_in_error_shows:
  assumes "ends_in_error env outcome s"
  shows "\<exists>entry s'. is_fetch_error entry
           \<and> fetchLatest env outcome s
               = showError (error_message outcome) (console_error entry s')
           \<and> fetch_errors s' = fetch_errors s
           \<and> assign (error_message outcome) (statusText s')
               = assign (error_message outcome) (statusText s)"
proof (cases outcome)
  case Rejected
  have "is_fetch_error (FetchException FetchFailed)
      \<and> fetchLatest env outcome s
          = showError (error_message outcome) (console_error (FetchException FetchFailed) s)"
    using Rejected by (simp add: fetchLatest_Rejected error_message_def)
  then show ?thesis by blast
next
  case (Resolved resp)
  show ?thesis
  proof (cases "ok resp")
    case False
    have "is_fetch_error (FetchErrorStatus (status resp))
        \<and> fetchLatest env outcome s
            = showError (error_message outcome)
                (console_error (FetchErrorStatus (status resp)) s)"
      using Resolved False by (simp add: fetchLatest_not_ok error_message_def)
    then show ?thesis by blast
  next
    case True
    with assms Resolved have not204: "status resp \<noteq> 204"
      by (simp add: ends_in_error_def)
    show ?thesis
    proof (cases "json_body resp")
      case None
      have "is_fetch_error (FetchException JsonSyntaxError)
          \<and> fetchLatest env outcome s
              = showError (error_message outcome)
                  (console_error (FetchException JsonSyntaxError) s)"
        using Resolved True not204 None
        by (simp add: fetchLatest_not_json error_message_def)
      then show ?thesis by blast
    next
      case (Some data)
      with assms Resolved True not204
      obtain err where err: "fst (updateUI env data (s\<lparr>lastData := data\<rparr>)) = Some err"
        by (auto simp add: ends_in_error_def)
      define s' where "s' = snd (updateUI env data (s\<lparr>lastData := data\<rparr>))"
      have run: "updateUI env data (s\<lparr>lastData := data\<rparr>) = (Some err, s')"
        using err by (simp add: s'_def prod_eq_iff)
      have "fetch_errors s' = fetch_errors s"
        by (simp add: s'_def fetch_errors_updateUI) (simp add: fetch_errors_def)
      moreover have "assign (error_message outcome) (statusText s')
                       = assign (error_message outcome) (statusText s)"
        by (simp add: s'_def updateUI_statusText_present)
      moreover have "fetchLatest env outcome s
                       = showError (error_message outcome)
                           (console_error (FetchException err) s')"
        using Resolved True not204 Some run
        by (simp add: fetchLatest_json error_message_def)
      moreover have "is_fetch_error (FetchException err)" by simp
      ultimately show ?thesis by blast
    qed
  qed
qed

lemma not_ends_in_error:
  assumes "\<not> ends_in_error env outcome s"
  shows "fetch_errors (fetchLatest env outcome s) = fetch_errors s"
proof -
  from assms obtain resp where outcome: "outcome = Resolved resp" and okr: "ok resp"
    by (cases outcome) (auto simp add: ends_in_error_def)
  show ?thesis
  proof (cases "status resp = 204")
    case True
    then show ?thesis
      by (simp add: outcome fetchLatest_204 fetch_errors_def showWaiting_def)
  next
    case False
    with assms outcome okr obtain data where
      body: "json_body resp = Some data"
      and run: "fst (updateUI env data (s\<lparr>lastData := data\<rparr>)) = None"
      by (auto simp add: ends_in_error_def split: option.splits)
    define s' where "s' = snd (updateUI env data (s\<lparr>lastData := data\<rparr>))"
    have "updateUI env data (s\<lparr>lastData := data\<rparr>) = (None, s')"
      using run by (simp add: s'_def prod_eq_iff)
    then have "fetchLatest env outcome s = s'"
      using outcome okr False body by (simp add: fetchLatest_json)
    moreover have "fetch_errors s' = fetch_errors s"
      by (simp add: s'_def fetch_errors_updateUI) (simp add: fetch_errors_def)
    ultimately show ?thesis by simp
  qed
qed

text \<open>
  C4, as the spec states it, fails in its last part: a bad status and a network failure are
  not the only ways to an error display. The \<^verbatim>\<open>catch\<close> of line 61 takes every exception of
  the \<^verbatim>\<open>try\<close> block, so a 200 response ends in \<^verbatim>\<open>Server unreachable\<close> when its body is
  not JSON, and also when its body parses and has a \<^verbatim>\<open>null\<close> among its readings (reading
  \<^verbatim>\<open>h.timestamp\<close> throws).
\<close>

theorem error_display_counterexample:
  "ok \<lparr>status = 200, json_body = None\<rparr>
   \<and> statusText (fetchLatest sample_platform (Resolved \<lparr>status = 200, json_body = None\<rparr>)
        sample_page) = Some ''Server unreachable''
   \<and> console (fetchLatest sample_platform (Resolved \<lparr>status = 200, json_body = None\<rparr>)
        sample_page) = [FetchException JsonSyntaxError]
   \<and> ok \<lparr>status = 200, json_body = Some (JObj [(''history'', JArr [JNull])])\<rparr>
   \<and> statusText (fetchLatest sample_platform
        (Resolved \<lparr>status = 200, json_body = Some (JObj [(''history'', JArr [JNull])])\<rparr>)
        sample_page) = Some ''Server unreachable''
   \<and> console (fetchLatest sample_platform
        (Resolved \<lparr>status = 200, json_body = Some (JObj [(''history'', JArr [JNull])])\<rparr>)
        sample_page) = [FetchException TypeError]"
proof -
  have "rendered sample_platform (take 12 (rev [JNull])) = ([], Some TypeError)"
    by (simp add: reading_item_of_def time_string_def get_field_def)
  then have "updateUI sample_platform (JObj [(''history'', JArr [JNull])])
               (sample_page\<lparr>lastData := JObj [(''history'', JArr [JNull])]\<rparr>)
             = (Some TypeError,
                sample_page\<lparr>lastData := JObj [(''history'', JArr [JNull])],
                  probText := Some ''--%'', statusText := Some em_dash,
                  daysText := Some ''-- days'',
                  probCircle := Some (gradient sample_platform (Finite 0)),
                  readingsList := Some []\<rparr>)"
    by (simp add: updateUI_steps [where rp = None and st = em_dash and d = "''-- days''"]
          rawProb_def status_string_def daysDisplay_def history_of_def
          percent_def percent_text_def deg_def assign_def sample_page_def)
  then show ?thesis
    by (simp add: fetchLatest_json fetchLatest_not_json ok_def showError_def
          console_error_def assign_def sample_page_def)
qed

text \<open>
  C4, amended. A 204 response puts the page in the waiting state (\<^verbatim>\<open>--%\<close>,
  \<^verbatim>\<open>Waiting for sensor...\<close>, \<^verbatim>\<open>-- days\<close>, \<^verbatim>\<open>No readings yet\<close>) and prints no error. An error
  display (a \<^verbatim>\<open>fetchLatest\<close> line on the console and the error message as status text) is
  produced exactly when the promise of \<^verbatim>\<open>fetch\<close> rejects, the status is not OK, the body of
  an OK response is not JSON, or an exception is thrown while the parsed body is rendered.
\<close>

theorem waiting_and_error_displays:
  "(status resp = 204 \<longrightarrow>
      probText (fetchLatest env (Resolved resp) s) = assign ''--%'' (probText s)
    \<and> statusText (fetchLatest env (Resolved resp) s)
        = assign ''Waiting for sensor...'' (statusText s)
    \<and> daysText (fetchLatest env (Resolved resp) s) = assign ''-- days'' (daysText s)
    \<and> readingsList (fetchLatest env (Resolved resp) s)
        = assign [TimeOnly ''No readings yet''] (readingsList s)
    \<and> console (fetchLatest env (Resolved resp) s) = console s
    \<and> \<not> ends_in_error env (Resolved resp) s)
   \<and> (ends_in_error env outcome s \<longrightarrow>
        length (fetch_errors (fetchLatest env outcome s)) = Suc (length (fetch_errors s))
      \<and> statusText (fetchLatest env outcome s)
          = assign (error_message outcome) (statusText s))
   \<and> (\<not> ends_in_error env outcome s \<longrightarrow>
        fetch_errors (fetchLatest env outcome s) = fetch_errors s)"
proof (intro conjI impI)
  assume "ends_in_error env outcome s"
  then obtain entry s' where e: "is_fetch_error entry"
    and f: "fetchLatest env outcome s
              = showError (error_message outcome) (console_error entry s')"
    and c: "fetch_errors s' = fetch_errors s"
    and t: "assign (error_message outcome) (statusText s')
              = assign (error_message outcome) (statusText s)"
    using ends_in_error_shows by blast
  show "length (fetch_errors (fetchLatest env outcome s)) = Suc (length (fetch_errors s))"
    using e c by (simp add: f fetch_errors_error)
  show "statusText (fetchLatest env outcome s) = assign (error_message outcome) (statusText s)"
    using t by (simp add: f showError_def console_error_def)
next
  assume "\<not> ends_in_error env outcome s"
  then show "fetch_errors (fetchLatest env outcome s) = fetch_errors s"
    by (rule not_ends_in_error)
qed (simp_all add: fetchLatest_204 showWaiting_def ends_in_error_def ok_def)

theorem waiting_and_error_displays_witness:
  "status \<lparr>status = 204, json_body = None\<rparr> = 204
   \<and> probText (fetchLatest sample_platform (Resolved \<lparr>status = 204, json_body = None\<rparr>)
        sample_page) = Some ''--%''
   \<and> statusText (fetchLatest sample_platform (Resolved \<lparr>status = 204, json_body = None\<rparr>)
        sample_page) = Some ''Waiting for sensor...''
   \<and> daysText (fetchLatest sample_platform (Resolved \<lparr>status = 204, json_body = None\<rparr>)
        sample_page) = Some ''-- days''
   \<and> readingsList (fetchLatest sample_platform (Resolved \<lparr>status = 204, json_body = None\<rparr>)
        sample_page) = Some [TimeOnly ''No readings yet'']
   \<and> \<not> ends_in_error sample_platform (Resolved \<lparr>status = 204, json_body = None\<rparr>)
        sample_page
   \<and> fetch_errors (fetchLatest sample_platform
        (Resolved \<lparr>status = 204, json_body = None\<rparr>) sample_page) = []
   \<and> ends_in_error sample_platform Rejected sample_page
   \<and> length (fetch_errors (fetchLatest sample_platform Rejected sample_page)) = 1
   \<and> statusText (fetchLatest sample_platform Rejected sample_page)
     = Some ''Server unreachable''"
  using waiting_and_error_displays [of "\<lparr>status = 204, json_body = None\<rparr>"
      sample_platform sample_page Rejected]
    waiting_and_error_displays [of "\<lparr>status = 204, json_body = None\<rparr>"
      sample_platform sample_page "Resolved \<lparr>status = 204, json_body = None\<rparr>"]
  by (simp add: ends_in_error_def error_message_def assign_def sample_page_def
        fetch_errors_def ok_def)

section \<open>Entries of the history that lack a field\<close>

lemma time_string_missing:
  "h \<noteq> JNull \<Longrightarrow> own_field h ''timestamp'' = None \<Longrightarrow>
   time_string env h = Inr ''Invalid Date''"
  by (simp add: time_string_def get_field_def date_locale_string_def)

lemma value_string_missing:
  "h \<noteq> JNull \<Longrightarrow> own_field h ''resistance'' = None \<Longrightarrow> value_string env h = Inr ''--''"
  by (simp add: value_string_def get_field_def)

lemma reading_item_of_null: "reading_item_of env JNull = Inl TypeError"
  by (simp add: reading_item_of_def time_string_def get_field_def)

lemma rawProb_placeholder:
  "own_field data ''probability'' = None \<or> own_field data ''probability'' = Some JNull
     \<or> (\<exists>v. own_field data ''probability'' = Some v \<and> to_number env v = Inr NaN) \<Longrightarrow>
   rawProb env data = Inr None \<and> percent_text env (percent env None) = ''--%''"
  by (auto simp add: rawProb_def percent_def percent_text_def)

text \<open>
  C10 at the input \<^verbatim>\<open>{"probability": 0.5, "history": [{"resistance": 800}]}\<close>: the entry
  has no \<^verbatim>\<open>timestamp\<close>, and its time is rendered as \<^verbatim>\<open>Invalid Date\<close>, not as the \<^verbatim>\<open>--\<close>
  that line 152 starts from and line 154 falls back to. \<^verbatim>\<open>new Date(undefined)\<close> does not
  throw, so the \<^verbatim>\<open>catch\<close> is not entered.
\<close>

theorem missing_timestamp_shown:
  "updateUI sample_platform
     (JObj [(''probability'', JNum (Finite (1 / 2))),
            (''history'', JArr [JObj [(''resistance'', JNum (Finite 800))]])])
     sample_page
   = (None,
      sample_page\<lparr>probText := Some ''50%'', statusText := Some em_dash,
        daysText := Some ''3 days'',
        probCircle := Some (gradient sample_platform (Finite 180)),
        readingsList := Some [TimeValue ''Invalid Date'' ''800''],
        sensorReadingsContainer := Some ''block''\<rparr>)"
proof -
  define data where
    "data = JObj [(''probability'', JNum (Finite (1 / 2))),
                  (''history'', JArr [JObj [(''resistance'', JNum (Finite 800))]])]"
  have obj: "to_boolean (Some data)" "js_typeof data = TObject"
    by (simp_all add: data_def)
  have rp: "rawProb sample_platform data = Inr (Some (Finite (1 / 2)))"
    by (simp add: data_def rawProb_def)
  have st: "statusText sample_page = None \<or> status_string sample_platform data = Inr em_dash"
    by (simp add: data_def status_string_def)
  have dd: "daysDisplay sample_platform data (Some (Finite (1 / 2))) = Inr ''3 days''"
    by (simp add: data_def daysDisplay_def lit_0_95_def lit_0_75_def lit_0_60_def lit_0_40_def)
  have pc: "percent sample_platform (Some (Finite (1 / 2))) = Some (Finite 50)"
    by (simp add: percent_def sample_platform_def)
  have pt: "percent_text sample_platform (Some (Finite 50)) = ''50%''"
    by (simp add: percent_text_def num_string_def sample_platform_def decimal.simps)
  have "\<lfloor>50 * lit_3_6\<rfloor> = 180"
    by (simp add: lit_3_6_def floor_eq_iff)
  then have ring: "gradient sample_platform (deg sample_platform (Some (Finite 50)))
                     = gradient sample_platform (Finite 180)"
    by (simp add: gradient_def deg_def num_string_def sample_platform_def lit_3_6_def)
  have hist: "history_of data = [JObj [(''resistance'', JNum (Finite 800))]]"
    by (simp add: data_def history_of_def)
  have items: "reading_item_of sample_platform (JObj [(''resistance'', JNum (Finite 800))])
        = Inr (TimeValue ''Invalid Date'' ''800'')"
    by (simp add: reading_item_of_def time_string_missing value_string_def get_field_def
          num_string_def sample_platform_def decimal.simps)
  have "updateUI sample_platform data sample_page
   = (None,
      sample_page\<lparr>probText := Some ''50%'', statusText := Some em_dash,
        daysText := Some ''3 days'',
        probCircle := Some (gradient sample_platform (Finite 180)),
        readingsList := Some [TimeValue ''Invalid Date'' ''800''],
        sensorReadingsContainer := Some ''block''\<rparr>)"
    unfolding updateUI_steps [OF obj rp st dd]
    by (simp add: pc pt ring hist items assign_def sample_page_def Let_def)
  then show ?thesis
    by (simp add: data_def)
qed

theorem missing_timestamp_shown_witness:
  "readingsList (snd (updateUI sample_platform
      (JObj [(''probability'', JNum (Finite (1 / 2))),
             (''history'', JArr [JObj [(''resistance'', JNum (Finite 800))]])])
      sample_page))
     = Some [TimeValue ''Invalid Date'' ''800'']"
  using missing_timestamp_shown by simp

text \<open>
  And at \<^verbatim>\<open>{"history": [null]}\<close> \<open>updateUI\<close> throws: the handler of line 154 reads
  \<^verbatim>\<open>h.timestamp\<close> of \<^verbatim>\<open>null\<close> once more.
\<close>

lemma null_entry_throws:
  "fst (updateUI sample_platform (JObj [(''history'', JArr [JNull])]) sample_page)
     = Some TypeError"
proof -
  have "rendered sample_platform (take 12 (rev [JNull])) = ([], Some TypeError)"
    by (simp add: reading_item_of_null)
  then show ?thesis
    by (simp add: updateUI_steps [where rp = None and st = em_dash and d = "''-- days''"]
          rawProb_def status_string_def daysDisplay_def history_of_def assign_def
          sample_page_def)
qed

section \<open>A failed request is contained\<close>

lemma updateUI_after_error:
  fixes s :: page and m :: string and c :: "log_entry list"
  defines "s1 \<equiv> s\<lparr>statusText := assign m (statusText s), console := c\<rparr>"
  shows "fst (updateUI env data s1) = fst (updateUI env data s)"
    and "fst (updateUI env data s) = None \<Longrightarrow>
         forget_console (snd (updateUI env data s1)) = forget_console (snd (updateUI env data s))"
    and "forget_console (showError u (snd (updateUI env data s1)))
           = forget_console (showError u (snd (updateUI env data s)))"
proof -
  have present: "statusText s1 = None \<longleftrightarrow> statusText s = None"
    by (simp add: s1_def assign_def split: option.splits)
  have "fst (updateUI env data s1) = fst (updateUI env data s)
      \<and> (fst (updateUI env data s) = None \<longrightarrow>
           forget_console (snd (updateUI env data s1))
             = forget_console (snd (updateUI env data s)))
      \<and> forget_console (showError u (snd (updateUI env data s1)))
           = forget_console (showError u (snd (updateUI env data s)))"
  proof (cases rule: updateUI_cases [where data = data and env = env and s = s])
    case invalid
    then show ?thesis
      by (simp add: updateUI_not_object s1_def showWaiting_def showError_def console_error_def
            forget_console_def assign_def split: option.splits)
  next
    case (raw e)
    then show ?thesis
      by (simp add: updateUI_rawProb_throws s1_def showError_def forget_console_def assign_def
            split: option.splits)
  next
    case (status rp old e)
    from status(4) present obtain old1 where "statusText s1 = Some old1"
      by (cases "statusText s1") simp_all
    with status show ?thesis
      by (simp add: updateUI_status_throws [where s = s1] updateUI_status_throws [where s = s])
         (simp add: s1_def showError_def forget_console_def assign_def)
  next
    case (days rp st e)
    from days(4) present have "statusText s1 = None \<or> status_string env data = Inr st"
      by auto
    with days show ?thesis
      by (simp add: updateUI_days_throws [where s = s1 and st = st]
            updateUI_days_throws [where s = s and st = st])
         (simp add: s1_def showError_def forget_console_def assign_def split: option.splits)
  next
    case (list rp st d)
    from list(4) present have st1: "statusText s1 = None \<or> status_string env data = Inr st"
      by auto
    show ?thesis
      unfolding updateUI_steps [OF list] updateUI_steps [OF list(1-3) st1 list(5)]
      by (simp add: s1_def showError_def forget_console_def assign_def Let_def
            split: option.splits)
  qed
  then show "fst (updateUI env data s1) = fst (updateUI env data s)"
    and "fst (updateUI env data s) = None \<Longrightarrow>
         forget_console (snd (updateUI env data s1)) = forget_console (snd (updateUI env data s))"
    and "forget_console (showError u (snd (updateUI env data s1)))
           = forget_console (showError u (snd (updateUI env data s)))"
    by simp_all
qed

lemma forget_console_error:
  "forget_console (showError u (console_error entry t)) = forget_console (showError u t)"
  by (simp add: forget_console_def showError_def console_error_def)

lemma fetchLatest_after_error:
  "forget_console (fetchLatest env outcome (showError m (console_error entry s)))
     = forget_console (fetchLatest env outcome s)"
proof (cases outcome)
  case Rejected
  then show ?thesis
    by (simp add: fetchLatest_Rejected showError_def console_error_def forget_console_def
          assign_def split: option.splits)
next
  case (Resolved resp)
  show ?thesis
  proof (cases "ok resp")
    case False
    with Resolved show ?thesis
      by (simp add: fetchLatest_not_ok showError_def console_error_def forget_console_def
            assign_def split: option.splits)
  next
    case okr: True
    show ?thesis
    proof (cases "status resp = 204")
      case True
      with Resolved show ?thesis
        by (simp add: fetchLatest_204 showWaiting_def showError_def console_error_def
              forget_console_def assign_def split: option.splits)
    next
      case not204: False
      show ?thesis
      proof (cases "json_body resp")
        case None
        with Resolved okr not204 show ?thesis
          by (simp add: fetchLatest_not_json showError_def console_error_def
                forget_console_def assign_def split: option.splits)
      next
        case (Some data)
        define s0 where "s0 = s\<lparr>lastData := data\<rparr>"
        define s1 where
          "s1 = s0\<lparr>statusText := assign m (statusText s0), console := console s @ [entry]\<rparr>"
        have s1: "(showError m (console_error entry s))\<lparr>lastData := data\<rparr> = s1"
          by (simp add: s1_def s0_def showError_def console_error_def)
        have same: "fst (updateUI env data s1) = fst (updateUI env data s0)"
          unfolding s1_def by (rule updateUI_after_error(1))
        have left: "fetchLatest env outcome (showError m (console_error entry s))
            = (case fst (updateUI env data s0) of
                 None \<Rightarrow> snd (updateUI env data s1)
               | Some err \<Rightarrow>
                   showError ''Server unreachable''
                     (console_error (FetchException err) (snd (updateUI env data s1))))"
          using Resolved okr not204 Some
          by (simp add: fetchLatest_json s1 same [symmetric] split: prod.splits option.splits)
        have right: "fetchLatest env outcome s
            = (case fst (updateUI env data s0) of
                 None \<Rightarrow> snd (updateUI env data s0)
               | Some err \<Rightarrow>
                   showError ''Server unreachable''
                     (console_error (FetchException err) (snd (updateUI env data s0))))"
          using Resolved okr not204 Some
          by (simp add: fetchLatest_json s0_def split: prod.splits option.splits)
        show ?thesis
        proof (cases "fst (updateUI env data s0)")
          case None
          then show ?thesis
            unfolding left right s1_def by (simp add: updateUI_after_error(2))
        next
          case (Some err)
          then show ?thesis
            unfolding left right s1_def
            by (simp add: forget_console_error updateUI_after_error(3))
        qed
      qed
    qed
  qed
qed

lemma fetchLatest_failed_globals:
  assumes "request_failed outcome"
  shows "lastData (fetchLatest env outcome s) = lastData s"
    and "readingsVisible (fetchLatest env outcome s) = readingsVisible s"
proof -
  from assms obtain m entry where
    "fetchLatest env outcome s = showError m (console_error entry s)"
    by (rule fetchLatest_failed)
  then show "lastData (fetchLatest env outcome s) = lastData s"
    and "readingsVisible (fetchLatest env outcome s) = readingsVisible s"
    by (simp_all add: showError_def console_error_def)
qed

text \<open>
  C7. A request that fails (the promise of \<^verbatim>\<open>fetch\<close> rejects, the status is not OK, or
  the body is not JSON) is contained: \<^verbatim>\<open>lastData\<close> and \<^verbatim>\<open>readingsVisible\<close> keep their values,
  and the next poll, whatever it brings, leaves the page exactly as it would have without the
  failure; only the console keeps the error line.
\<close>

theorem failed_request_contained:
  assumes "request_failed failure"
  shows "lastData (fetchLatest env failure s) = lastData s
       \<and> readingsVisible (fetchLatest env failure s) = readingsVisible s
       \<and> forget_console (fetchLatest env next_poll (fetchLatest env failure s))
           = forget_console (fetchLatest env next_poll s)"
proof -
  from assms obtain m entry where
    "fetchLatest env failure s = showError m (console_error entry s)"
    by (rule fetchLatest_failed)
  then have "forget_console (fetchLatest env next_poll (fetchLatest env failure s))
               = forget_console (fetchLatest env next_poll s)"
    by (simp add: fetchLatest_after_error)
  with fetchLatest_failed_globals [OF assms] show ?thesis by simp
qed

theorem failed_request_contained_witness:
  "request_failed (Resolved \<lparr>status = 500, json_body = None\<rparr>)
   \<and> lastData (fetchLatest sample_platform (Resolved \<lparr>status = 500, json_body = None\<rparr>)
        sample_page) = JNull
   \<and> readingsVisible (fetchLatest sample_platform
        (Resolved \<lparr>status = 500, json_body = None\<rparr>) sample_page)
   \<and> forget_console (fetchLatest sample_platform
        (Resolved \<lparr>status = 200,
           json_body = Some (JObj [(''probability'', JNum (Finite lit_0_95))])\<rparr>)
        (fetchLatest sample_platform (Resolved \<lparr>status = 500, json_body = None\<rparr>)
           sample_page))
     = forget_console (fetchLatest sample_platform
        (Resolved \<lparr>status = 200,
           json_body = Some (JObj [(''probability'', JNum (Finite lit_0_95))])\<rparr>)
        sample_page)"
  using failed_request_contained [of "Resolved \<lparr>status = 500, json_body = None\<rparr>"
      sample_platform sample_page
      "Resolved \<lparr>status = 200,
         json_body = Some (JObj [(''probability'', JNum (Finite lit_0_95))])\<rparr>"]
  by (simp add: ok_def sample_page_def)

section \<open>Rendering twice\<close>

lemma assign_assign: "assign v (assign w el) = assign v el"
  by (simp add: assign_def split: option.splits)

lemma assign_None_iff: "assign v el = None \<longleftrightarrow> el = None"
  by (simp add: assign_def split: option.splits)

lemma updateUI_twice:
  "fst (updateUI env data (snd (updateUI env data s))) = fst (updateUI env data s)
   \<and> forget_console (snd (updateUI env data (snd (updateUI env data s))))
       = forget_console (snd (updateUI env data s))"
proof (cases rule: updateUI_cases [where data = data and env = env and s = s])
  case invalid
  then show ?thesis
    by (simp add: updateUI_not_object showWaiting_def console_error_def forget_console_def
          assign_def split: option.splits)
next
  case (raw e)
  then show ?thesis by (simp add: updateUI_rawProb_throws)
next
  case (status rp old e)
  define s' where "s' = snd (updateUI env data s)"
  have s': "s' = s\<lparr>probText := assign (percent_text env (percent env rp)) (probText s)\<rparr>"
    using status by (simp add: s'_def updateUI_status_throws)
  then have "statusText s' = Some old"
    using status(4) by simp
  with status(1-3,5) have "updateUI env data s'
      = (Some e, s'\<lparr>probText := assign (percent_text env (percent env rp)) (probText s')\<rparr>)"
    by (simp add: updateUI_status_throws [where s = s'])
  then show ?thesis
    using status unfolding s'_def [symmetric]
    by (simp add: updateUI_status_throws [where s = s])
       (simp add: s' assign_def split: option.splits)
next
  case (days rp st e)
  define s' where "s' = snd (updateUI env data s)"
  have s': "s' = s\<lparr>probText := assign (percent_text env (percent env rp)) (probText s),
                    statusText := assign st (statusText s)\<rparr>"
    using days by (simp add: s'_def updateUI_days_throws [where st = st])
  then have "statusText s' = None \<or> status_string env data = Inr st"
    using days(4) by (auto simp add: assign_def)
  with days(1-3) have "updateUI env data s'
      = (Some e, s'\<lparr>probText := assign (percent_text env (percent env rp)) (probText s'),
                     statusText := assign st (statusText s')\<rparr>)"
    using days(5) by (simp add: updateUI_days_throws [where s = s' and st = st])
  then show ?thesis
    using days unfolding s'_def [symmetric]
    by (simp add: updateUI_days_throws [where s = s and st = st])
       (simp add: s' assign_def split: option.splits)
next
  case (list rp st d)
  define s' where "s' = snd (updateUI env data s)"
  have present: "statusText s' = None \<longleftrightarrow> statusText s = None"
    by (cases "readingsList s"; cases "snd (rendered env (take 12 (history_of data)))")
       (simp_all add: s'_def updateUI_steps [OF list] Let_def assign_None_iff)
  then have st': "statusText s' = None \<or> status_string env data = Inr st"
    using list(4) by auto
  note again = updateUI_steps [OF list(1-3) st' list(5)]
  show ?thesis
  proof (cases "readingsList s")
    case None
    then have "readingsList s' = None" "readingsVisible s' = readingsVisible s"
      by (simp_all add: s'_def updateUI_steps [OF list] Let_def)
    then show ?thesis
      unfolding s'_def [symmetric] again
      by (simp add: Let_def)
         (simp add: s'_def updateUI_steps [OF list] None Let_def assign_assign)
  next
    case (Some old)
    show ?thesis
    proof (cases "snd (rendered env (take 12 (history_of data)))")
      case no_exn: None
      have "\<exists>old'. readingsList s' = Some old'" "readingsVisible s' = readingsVisible s"
        by (simp_all add: s'_def updateUI_steps [OF list] Let_def Some no_exn)
      then obtain old' where "readingsList s' = Some old'"
        and "readingsVisible s' = readingsVisible s"
        by blast
      then show ?thesis
        unfolding s'_def [symmetric] again
        by (simp add: Let_def no_exn)
           (simp add: s'_def updateUI_steps [OF list] Some no_exn Let_def assign_assign)
    next
      case exn: (Some e)
      have "\<exists>old'. readingsList s' = Some old'" "readingsVisible s' = readingsVisible s"
        by (simp_all add: s'_def updateUI_steps [OF list] Let_def Some exn)
      then obtain old' where "readingsList s' = Some old'"
        and "readingsVisible s' = readingsVisible s"
        by blast
      then show ?thesis
        unfolding s'_def [symmetric] again
        by (simp add: Let_def exn)
           (simp add: s'_def updateUI_steps [OF list] Some exn Let_def assign_assign)
    qed
  qed
qed

text \<open>
  C8. Reads are idempotent. \<open>getLatest\<close> called twice with nothing ingested in between
  returns the same result; and rendering the same data twice gives the page (and the
  exception, if any) that rendering it once gives: the display is a function of the data.
  Only the console differs, by a second \<^verbatim>\<open>invalid data\<close> line when the data is no object.
\<close>

theorem reads_idempotent:
  "fst (getLatest (snd (getLatest current))) = fst (getLatest current)
   \<and> snd (getLatest current) = current
   \<and> fst (updateUI env data (snd (updateUI env data s))) = fst (updateUI env data s)
   \<and> forget_console (snd (updateUI env data (snd (updateUI env data s))))
       = forget_console (snd (updateUI env data s))"
  using updateUI_twice [of env data s] by (simp add: getLatest_def)

theorem reads_idempotent_witness:
  "fst (getLatest (snd (getLatest None))) = NoData
   \<and> fst (updateUI sample_platform (JObj [(''history'', JArr sample_history)])
        (snd (updateUI sample_platform (JObj [(''history'', JArr sample_history)])
           sample_page))) = None
   \<and> forget_console (snd (updateUI sample_platform (JObj [(''history'', JArr sample_history)])
        (snd (updateUI sample_platform (JObj [(''history'', JArr sample_history)])
           sample_page))))
     = forget_console (snd (updateUI sample_platform
         (JObj [(''history'', JArr sample_history)]) sample_page))"
  using reads_idempotent [of None sample_platform "JObj [(''history'', JArr sample_history)]"
      sample_page]
  by (simp add: getLatest_def sample_history_shown)

end
